theory Spec2Isabelle
  imports Main "HOL-Library.Sublist"
begin

section \<open>Python values used by the relay\<close>

text \<open>
  A Python \<open>str\<close> is modelled as a \<open>string\<close>; a \<open>char\<close> stands for the code point of
  the same number (0 to 255). The value returned by \<open>response.json()\<close> is one of the seven
  Python types the JSON decoder produces. A \<open>float\<close> is represented by its \<open>repr\<close>, which
  identifies it; a \<open>dict\<close> by its items in insertion order.
\<close>

datatype json =
    JNull
  | JBool bool
  | JInt int
  | JFloat string
  | JStr string
  | JList "json list"
  | JDict "(string \<times> json) list"

text \<open>Exceptions: \<open>httpx.HTTPStatusError\<close> with the \<open>status_code\<close> and \<open>text\<close> of
  \<open>e.response\<close>, and any other subclass of \<open>Exception\<close> with its \<open>str(e)\<close>.\<close>

datatype exn =
    HTTPStatusError int string
  | Exception string

fun type_name :: "json \<Rightarrow> string" where
  "type_name JNull = ''NoneType''"
| "type_name (JBool b) = ''bool''"
| "type_name (JInt i) = ''int''"
| "type_name (JFloat r) = ''float''"
| "type_name (JStr s) = ''str''"
| "type_name (JList xs) = ''list''"
| "type_name (JDict kvs) = ''dict''"

text \<open>\<open>bool(v)\<close>, as \<open>not web_results\<close> tests it.\<close>

fun truthy :: "json \<Rightarrow> bool" where
  "truthy JNull = False"
| "truthy (JBool b) = b"
| "truthy (JInt i) = (i \<noteq> 0)"
| "truthy (JFloat r) = (r \<noteq> ''0.0'' \<and> r \<noteq> ''-0.0'')"
| "truthy (JStr s) = (s \<noteq> [])"
| "truthy (JList xs) = (xs \<noteq> [])"
| "truthy (JDict kvs) = (kvs \<noteq> [])"

text \<open>\<open>v.get(key, default)\<close>: only a \<open>dict\<close> has the method; on any other value the
  attribute lookup raises \<open>AttributeError\<close>.\<close>

fun py_get :: "json \<Rightarrow> string \<Rightarrow> json \<Rightarrow> exn + json" where
  "py_get (JDict kvs) key dflt =
     Inr (case map_of kvs key of None \<Rightarrow> dflt | Some v \<Rightarrow> v)"
| "py_get v key dflt =
     Inl (Exception ([CHR 0x27] @ type_name v @ [CHR 0x27] @ '' object has no attribute ''
            @ [CHR 0x27] @ ''get'' @ [CHR 0x27]))"

text \<open>\<open>xs[:count]\<close> on a sequence: a negative \<open>count\<close> counts from the end and is
  clamped at 0.\<close>

definition slice_to :: "'a list \<Rightarrow> int \<Rightarrow> 'a list" where
  "slice_to xs count =
     (if count < 0 then take (nat (int (length xs) + count)) xs else take (nat count) xs)"

subsection \<open>\<open>str(int)\<close>\<close>

definition digit_char :: "nat \<Rightarrow> char" where
  "digit_char d = ''0123456789abcdef'' ! d"

function str_nat :: "nat \<Rightarrow> string" where
  "str_nat n = (if n < 10 then [digit_char n] else str_nat (n div 10) @ [digit_char (n mod 10)])"
  by pat_completeness auto
termination
  by (relation "measure (\<lambda>n. n)") auto

definition str_int :: "int \<Rightarrow> string" where
  "str_int i = (if i < 0 then ''-'' @ str_nat (nat (- i)) else str_nat (nat i))"

text \<open>\<open>v[:count]\<close> followed by the iteration of \<open>enumerate\<close>: the items the loop visits.
  A \<open>list\<close> is sliced; a \<open>str\<close> is sliced and iterated character by character; a
  \<open>dict\<close> looks the slice object up as a key (\<open>KeyError\<close>, whose \<open>str\<close> is the
  \<open>repr\<close> of the key; interpreters before 3.12 raise \<open>TypeError\<close> for the unhashable
  slice instead); the other types are not subscriptable.\<close>

fun py_slice_items :: "json \<Rightarrow> int \<Rightarrow> exn + json list" where
  "py_slice_items (JList xs) count = Inr (slice_to xs count)"
| "py_slice_items (JStr s) count = Inr (map (\<lambda>c. JStr [c]) (slice_to s count))"
| "py_slice_items (JDict kvs) count =
     Inl (Exception (''slice(None, '' @ str_int count @ '', None)''))"
| "py_slice_items v count =
     Inl (Exception ([CHR 0x27] @ type_name v @ [CHR 0x27] @ '' object is not subscriptable''))"

subsection \<open>\<open>json.dumps\<close> with its default settings\<close>

text \<open>\<open>ensure_ascii=True\<close>: the seven short escapes, printable ASCII as it is, any other
  character as \<open>\uXXXX\<close>; item separator \<open>", "\<close> and key separator \<open>": "\<close>;
  \<open>allow_nan=True\<close>.\<close>

definition hex4 :: "nat \<Rightarrow> string" where
  "hex4 n = [digit_char (n div 4096 mod 16), digit_char (n div 256 mod 16),
             digit_char (n div 16 mod 16), digit_char (n mod 16)]"

definition escape_char :: "char \<Rightarrow> string" where
  "escape_char c =
     (if c = CHR 0x5C then [CHR 0x5C, CHR 0x5C]
      else if c = CHR 0x22 then [CHR 0x5C, CHR 0x22]
      else if c = CHR 0x08 then [CHR 0x5C, CHR ''b'']
      else if c = CHR 0x0C then [CHR 0x5C, CHR ''f'']
      else if c = CHR 0x0A then [CHR 0x5C, CHR ''n'']
      else if c = CHR 0x0D then [CHR 0x5C, CHR ''r'']
      else if c = CHR 0x09 then [CHR 0x5C, CHR ''t'']
      else if 32 \<le> (of_char c :: nat) \<and> (of_char c :: nat) \<le> 126 then [c]
      else [CHR 0x5C, CHR ''u''] @ hex4 (of_char c))"

definition encode_str :: "string \<Rightarrow> string" where
  "encode_str s = [CHR 0x22] @ concat (map escape_char s) @ [CHR 0x22]"

fun join :: "string \<Rightarrow> string list \<Rightarrow> string" where
  "join sep [] = []"
| "join sep [x] = x"
| "join sep (x # y # ys) = x @ sep @ join sep (y # ys)"

fun json_dumps :: "json \<Rightarrow> string" where
  "json_dumps JNull = ''null''"
| "json_dumps (JBool b) = (if b then ''true'' else ''false'')"
| "json_dumps (JInt i) = str_int i"
| "json_dumps (JFloat r) =
     (if r = ''nan'' then ''NaN'' else if r = ''inf'' then ''Infinity''
      else if r = ''-inf'' then ''-Infinity'' else r)"
| "json_dumps (JStr s) = encode_str s"
| "json_dumps (JList xs) = ''['' @ join '', '' (map json_dumps xs) @ '']''"
| "json_dumps (JDict kvs) =
     ''{'' @ join '', '' (map (\<lambda>(k, v). encode_str k @ '': '' @ json_dumps v) kvs) @ ''}''"

section \<open>The upstream client\<close>

datatype param = PStr string | PInt int

record http_request =
  url :: string
  headers :: "(string \<times> string) list"
  params :: "(string \<times> param) list"
  timeout :: nat

text \<open>An \<open>httpx.Response\<close>: its \<open>status_code\<close>, its \<open>text\<close> and what its \<open>json()\<close>
  method gives (the decoded body, or the decoder's exception).\<close>

record response =
  status_code :: int
  response_text :: string
  response_json :: "exn + json"

text \<open>What a run does, in order: the strings the generator yields, the GET it sends, each
  answer of \<open>request.is_disconnected()\<close>, each \<open>asyncio.sleep(0.1)\<close>.\<close>

datatype action =
    Yield string
  | HttpGet http_request
  | IsDisconnected bool
  | Sleep

text \<open>A computation of the generator: the actions done so far, and a value or the
  exception that stopped it.\<close>

type_synonym 'a gen = "action list \<times> (exn + 'a)"

definition bind :: "'a gen \<Rightarrow> ('a \<Rightarrow> 'b gen) \<Rightarrow> 'b gen" where
  "bind m f =
     (case m of
        (t, Inl e) \<Rightarrow> (t, Inl e)
      | (t, Inr x) \<Rightarrow> (case f x of (t', r) \<Rightarrow> (t @ t', r)))"

definition seq :: "'a gen \<Rightarrow> 'b gen \<Rightarrow> 'b gen" where
  "seq m n = bind m (\<lambda>_. n)"

definition lift :: "exn + 'a \<Rightarrow> 'a gen" where
  "lift r = ([], r)"

definition yield :: "string \<Rightarrow> unit gen" where
  "yield s = ([Yield s], Inr ())"

definition sleep :: "unit gen" where
  "sleep = ([Sleep], Inr ())"

text \<open>\<open>await request.is_disconnected()\<close>: the request is the sequence of answers the
  transport gives, the \<open>k\<close>-th call (from 0) getting \<open>request k\<close>.\<close>

definition is_disconnected :: "(nat \<Rightarrow> bool) \<Rightarrow> nat \<Rightarrow> bool gen" where
  "is_disconnected request k = ([IsDisconnected (request k)], Inr (request k))"

text \<open>\<open>response.raise_for_status()\<close> of httpx: any status outside 200..299 raises.\<close>

definition raise_for_status :: "response \<Rightarrow> exn + unit" where
  "raise_for_status r =
     (if 200 \<le> status_code r \<and> status_code r \<le> 299 then Inr ()
      else Inl (HTTPStatusError (status_code r) (response_text r)))"

text \<open>\<open>brave_search(query, count=5, language="en")\<close>. The key read from the environment
  at start-up and the transport (\<open>client.get\<close>, which returns a response or raises) are
  parameters. An omitted argument is \<open>None\<close>.\<close>

definition brave_search ::
  "string \<Rightarrow> (http_request \<Rightarrow> exn + response) \<Rightarrow> string \<Rightarrow> int option \<Rightarrow> string option
     \<Rightarrow> json gen" where
  "brave_search BRAVE_API_KEY client_get query count language =
     (let count = (case count of None \<Rightarrow> 5 | Some c \<Rightarrow> c);
          language = (case language of None \<Rightarrow> ''en'' | Some l \<Rightarrow> l);
          headers = [(''X-Subscription-Token'', BRAVE_API_KEY),
                     (''Accept'', ''application/json''),
                     (''Accept-Encoding'', ''gzip'')];
          params = [(''q'', PStr query),
                    (''count'', PInt count),
                    (''search_lang'', PStr language),
                    (''text_decorations'', PStr ''true'')];
          req = \<lparr>url = ''https://api.search.brave.com/res/v1/web/search'',
                 headers = headers, params = params, timeout = 10\<rparr>
      in bind ([HttpGet req], client_get req) (\<lambda>response.
         seq (lift (raise_for_status response))
             (lift (response_json response))))"

text \<open>The request \<open>brave_search\<close> builds, for stating what is sent.\<close>

definition brave_request :: "string \<Rightarrow> string \<Rightarrow> int \<Rightarrow> string \<Rightarrow> http_request" where
  "brave_request BRAVE_API_KEY query count language =
     \<lparr>url = ''https://api.search.brave.com/res/v1/web/search'',
      headers = [(''X-Subscription-Token'', BRAVE_API_KEY),
                 (''Accept'', ''application/json''),
                 (''Accept-Encoding'', ''gzip'')],
      params = [(''q'', PStr query),
                (''count'', PInt count),
                (''search_lang'', PStr language),
                (''text_decorations'', PStr ''true'')],
      timeout = 10\<rparr>"

section \<open>The stream translator\<close>

text \<open>The body of the \<open>for\<close> loop of \<open>event_stream\<close>, from item \<open>i\<close> of the enumeration
  on. \<open>break\<close> and the end of the items both leave the loop normally.\<close>

fun for_loop :: "(nat \<Rightarrow> bool) \<Rightarrow> nat \<Rightarrow> json list \<Rightarrow> unit gen" where
  "for_loop request i [] = ([], Inr ())"
| "for_loop request i (result # rest) =
     bind (lift (py_get result ''title'' (JStr ''''))) (\<lambda>title.
     bind (lift (py_get result ''description'' (JStr ''''))) (\<lambda>description.
     bind (lift (py_get result ''url'' (JStr ''''))) (\<lambda>url.
     let chunk = JDict [(''index'', JInt (int i + 1)),
                        (''title'', title),
                        (''description'', description),
                        (''url'', url)]
     in seq (yield (''data: '' @ json_dumps chunk @ ''\<newline>\<newline>''))
       (bind (is_disconnected request i) (\<lambda>disconnected.
          if disconnected then ([], Inr ())
          else seq sleep (for_loop request (Suc i) rest))))))"

text \<open>The \<open>try\<close> block of \<open>event_stream\<close>.\<close>

definition try_block ::
  "string \<Rightarrow> (http_request \<Rightarrow> exn + response) \<Rightarrow> (nat \<Rightarrow> bool) \<Rightarrow> string \<Rightarrow> int
     \<Rightarrow> unit gen" where
  "try_block BRAVE_API_KEY client_get request query count =
     seq (yield ''event: status\<newline>data: Search started\<newline>\<newline>'')
    (bind (brave_search BRAVE_API_KEY client_get query (Some count) None) (\<lambda>data.
     bind (lift (py_get data ''web'' (JDict []))) (\<lambda>web.
     bind (lift (py_get web ''results'' (JList []))) (\<lambda>web_results.
     if \<not> truthy web_results then
       seq (yield ''event: status\<newline>data: No results found\<newline>\<newline>'')
           (yield ''event: end\<newline>data: []\<newline>\<newline>'')
     else
       seq (yield ''event: status\<newline>data: Streaming results\<newline>\<newline>'')
      (bind (lift (py_slice_items web_results count)) (\<lambda>items.
       seq (for_loop request 0 items)
           (yield ''event: end\<newline>data: end_of_stream\<newline>\<newline>'')))))))"

text \<open>The two \<open>except\<close> clauses, tried in order.\<close>

fun except_clauses :: "exn \<Rightarrow> string" where
  "except_clauses (HTTPStatusError code body) =
     ''event: error\<newline>data: HTTP error '' @ str_int code @ '' - '' @ body @ ''\<newline>\<newline>''"
| "except_clauses (Exception msg) =
     ''event: error\<newline>data: Exception: '' @ msg @ ''\<newline>\<newline>''"

text \<open>\<open>event_stream(request, query, count=5)\<close>, run to exhaustion: everything it does.\<close>

definition event_stream ::
  "string \<Rightarrow> (http_request \<Rightarrow> exn + response) \<Rightarrow> (nat \<Rightarrow> bool) \<Rightarrow> string \<Rightarrow> int option
     \<Rightarrow> action list" where
  "event_stream BRAVE_API_KEY client_get request query count =
     (let count = (case count of None \<Rightarrow> 5 | Some c \<Rightarrow> c) in
      case try_block BRAVE_API_KEY client_get request query count of
        (t, Inr _) \<Rightarrow> t
      | (t, Inl e) \<Rightarrow> t @ [Yield (except_clauses e)])"

section \<open>The endpoint\<close>

record SearchRequest =
  query :: string
  count :: int
  language :: string

record StreamingResponse =
  content :: "action list"
  media_type :: string
  response_headers :: "(string \<times> string) list"

text \<open>\<open>x or 5\<close> on an \<open>int\<close>.\<close>

definition or_5 :: "int \<Rightarrow> int" where
  "or_5 x = (if x \<noteq> 0 then x else 5)"

definition search ::
  "string \<Rightarrow> (http_request \<Rightarrow> exn + response) \<Rightarrow> (nat \<Rightarrow> bool) \<Rightarrow> SearchRequest
     \<Rightarrow> StreamingResponse" where
  "search BRAVE_API_KEY client_get request body =
     \<lparr>content = event_stream BRAVE_API_KEY client_get request (query body)
                  (Some (or_5 (count body))),
      media_type = ''text/event-stream'',
      response_headers = [(''Cache-Control'', ''no-cache''),
                          (''Connection'', ''keep-alive''),
                          (''X-Accel-Buffering'', ''no'')]\<rparr>"

section \<open>Reading a run\<close>

text \<open>The strings written to the stream, the GETs sent, and the kind of each event by
  its framing: a per-result event has no \<open>event:\<close> line, a terminal event is named
  \<open>end\<close> or \<open>error\<close>.\<close>

fun yields :: "action list \<Rightarrow> string list" where
  "yields [] = []"
| "yields (Yield s # t) = s # yields t"
| "yields (a # t) = yields t"

fun gets :: "action list \<Rightarrow> http_request list" where
  "gets [] = []"
| "gets (HttpGet r # t) = r # gets t"
| "gets (a # t) = gets t"

definition is_data :: "string \<Rightarrow> bool" where
  "is_data s = prefix ''data: '' s"

definition is_end :: "string \<Rightarrow> bool" where
  "is_end s = prefix ''event: end\<newline>'' s"

definition is_error :: "string \<Rightarrow> bool" where
  "is_error s = prefix ''event: error\<newline>'' s"

definition is_terminal :: "string \<Rightarrow> bool" where
  "is_terminal s = (is_end s \<or> is_error s)"

section \<open>Auxiliary definitions for the statements and proofs\<close>

text \<open>The part of the \<open>try\<close> block that follows the fetch, as a function of the fetched
  data, and the \<open>except\<close> clauses applied to a finished computation. Lemmas
  \<open>try_block_after_fetch\<close> and \<open>event_stream_handled\<close> relate them to the model.\<close>

definition after_fetch :: "(nat \<Rightarrow> bool) \<Rightarrow> int \<Rightarrow> json \<Rightarrow> unit gen" where
  "after_fetch request c data =
     bind (lift (py_get data ''web'' (JDict []))) (\<lambda>web.
     bind (lift (py_get web ''results'' (JList []))) (\<lambda>web_results.
     if \<not> truthy web_results then
       seq (yield ''event: status\<newline>data: No results found\<newline>\<newline>'')
           (yield ''event: end\<newline>data: []\<newline>\<newline>'')
     else
       seq (yield ''event: status\<newline>data: Streaming results\<newline>\<newline>'')
      (bind (lift (py_slice_items web_results c)) (\<lambda>items.
       seq (for_loop request 0 items)
           (yield ''event: end\<newline>data: end_of_stream\<newline>\<newline>'')))))"

definition handled :: "unit gen \<Rightarrow> action list" where
  "handled m = (case m of (t, Inr u) \<Rightarrow> t | (t, Inl e) \<Rightarrow> t @ [Yield (except_clauses e)])"

text \<open>The per-result event of the specification for the result with items \<open>kvs\<close> at
  position \<open>i\<close> (from 0) of the emission: the record with the 1-based index and the three
  fields, each defaulting to the empty string, as \<open>json.dumps\<close> prints it.\<close>

definition get_or_empty :: "(string \<times> json) list \<Rightarrow> string \<Rightarrow> json" where
  "get_or_empty kvs k = (case map_of kvs k of None \<Rightarrow> JStr '''' | Some v \<Rightarrow> v)"

definition result_event :: "nat \<Rightarrow> (string \<times> json) list \<Rightarrow> string" where
  "result_event i kvs =
     ''data: '' @
     json_dumps (JDict [(''index'', JInt (int i + 1)),
                        (''title'', get_or_empty kvs ''title''),
                        (''description'', get_or_empty kvs ''description''),
                        (''url'', get_or_empty kvs ''url'')]) @
     ''\<newline>\<newline>''"

text \<open>What one visit of the loop does for a result that is a \<open>dict\<close> when the client is
  still there.\<close>

definition visit :: "nat \<times> (string \<times> json) list \<Rightarrow> action list" where
  "visit p = [Yield (result_event (fst p) (snd p)), IsDisconnected False, Sleep]"

text \<open>Concrete surroundings for the examples: a client that stays, a client found gone
  at the poll number \<open>n\<close> (from 0), a provider that gives the same response to any request,
  and a 200 response whose body has the given results under \<open>web.results\<close>.\<close>

definition connected :: "nat \<Rightarrow> bool" where
  "connected k = False"

definition disconnects_at :: "nat \<Rightarrow> nat \<Rightarrow> bool" where
  "disconnects_at n k = (n \<le> k)"

definition answers :: "response \<Rightarrow> http_request \<Rightarrow> exn + response" where
  "answers resp r = Inr resp"

definition ok_response :: "json \<Rightarrow> response" where
  "ok_response data = \<lparr>status_code = 200, response_text = json_dumps data,
                        response_json = Inr data\<rparr>"

definition web_results_body :: "json list \<Rightarrow> json" where
  "web_results_body rs = JDict [(''type'', JStr ''search''), (''web'', JDict [(''results'', JList rs)])]"

text \<open>The actions of a run that follow the first poll answering that the client is
  gone, if there is one.\<close>

fun after_disconnect :: "action list \<Rightarrow> action list option" where
  "after_disconnect [] = None"
| "after_disconnect (IsDisconnected True # t) = Some t"
| "after_disconnect (a # t) = after_disconnect t"

section \<open>Basic facts about runs\<close>

lemma bind_Inl: "bind (t, Inl e) f = (t, Inl e)"
  by (simp add: bind_def)

lemma bind_Inr: "bind (t, Inr x) f = (t @ fst (f x), snd (f x))"
  by (simp add: bind_def split: prod.splits)

lemma seq_Inl: "seq (t, Inl e) n = (t, Inl e)"
  by (simp add: seq_def bind_Inl)

lemma seq_Inr: "seq (t, Inr x) n = (t @ fst n, snd n)"
  by (simp add: seq_def bind_Inr)

lemma fst_seq: "fst (seq m n) = fst m @ (case snd m of Inl e \<Rightarrow> [] | Inr x \<Rightarrow> fst n)"
  by (cases m; cases "snd m") (simp_all add: seq_Inl seq_Inr)

lemma snd_seq: "snd (seq m n) = (case snd m of Inl e \<Rightarrow> Inl e | Inr x \<Rightarrow> snd n)"
  by (cases m; cases "snd m") (simp_all add: seq_Inl seq_Inr)

lemmas gen_simps = bind_Inl bind_Inr seq_Inl seq_Inr lift_def yield_def sleep_def
  is_disconnected_def

lemma yields_append: "yields (s @ t) = yields s @ yields t"
  by (induction s rule: yields.induct) simp_all

lemma gets_append: "gets (s @ t) = gets s @ gets t"
  by (induction s rule: gets.induct) simp_all

lemma brave_search_sends:
  "brave_search key client_get q (Some c) None =
     ([HttpGet (brave_request key q c ''en'')],
      (case client_get (brave_request key q c ''en'') of
         Inl e \<Rightarrow> Inl e
       | Inr resp \<Rightarrow>
           (case raise_for_status resp of Inl e \<Rightarrow> Inl e | Inr u \<Rightarrow> response_json resp)))"
  by (simp add: brave_search_def brave_request_def gen_simps Let_def bind_def seq_def
      split: sum.splits)

lemma gets_for_loop: "gets (fst (for_loop request i items)) = []"
proof (induction items arbitrary: i)
  case Nil
  then show ?case by simp
next
  case (Cons r rs)
  show ?case
  proof (cases r)
    case (JDict kvs)
    then show ?thesis using Cons [of "Suc i"]
      by (simp add: gen_simps Let_def gets_append)
  qed (simp_all add: gen_simps)
qed

lemma gets_try_block:
  "gets (fst (try_block key client_get request q c)) = [brave_request key q c ''en'']"
proof -
  obtain r where bs: "brave_search key client_get q (Some c) None =
      ([HttpGet (brave_request key q c ''en'')], r)"
    by (simp add: brave_search_sends)
  show ?thesis
  proof (cases r)
    case (Inl e)
    with bs show ?thesis by (simp add: try_block_def gen_simps)
  next
    case (Inr data)
    note data = this
    show ?thesis
    proof (cases "py_get data ''web'' (JDict [])")
      case (Inl e)
      with bs data show ?thesis by (simp add: try_block_def gen_simps)
    next
      case (Inr web)
      note web = this
      show ?thesis
      proof (cases "py_get web ''results'' (JList [])")
        case (Inl e)
        with bs data web show ?thesis by (simp add: try_block_def gen_simps)
      next
        case (Inr web_results)
        note wr = this
        show ?thesis
        proof (cases "py_slice_items web_results c")
          case (Inl e)
          with bs data web wr show ?thesis by (simp add: try_block_def gen_simps)
        next
          case (Inr items)
          with bs data web wr show ?thesis
            by (cases "snd (for_loop request 0 items)")
              (simp_all add: try_block_def gen_simps fst_seq gets_append gets_for_loop)
        qed
      qed
    qed
  qed
qed

lemma gets_event_stream:
  "gets (event_stream key client_get request q (Some c)) = [brave_request key q c ''en'']"
proof -
  obtain t r where tb: "try_block key client_get request q c = (t, r)"
    by (cases "try_block key client_get request q c")
  have "gets t = [brave_request key q c ''en'']"
    using gets_try_block [of key client_get request q c] tb by simp
  with tb show ?thesis
    by (cases r) (simp_all add: event_stream_def gets_append)
qed

lemma str_int_429: "str_int 429 = ''429''"
  by (simp add: str_int_def digit_char_def)

lemma try_block_after_fetch:
  "try_block key client_get request q c =
     seq (yield ''event: status\<newline>data: Search started\<newline>\<newline>'')
       (bind (brave_search key client_get q (Some c) None) (after_fetch request c))"
  by (simp add: try_block_def after_fetch_def [abs_def])

lemma event_stream_handled:
  "event_stream key client_get request q (Some c) =
     handled (try_block key client_get request q c)"
  by (simp add: event_stream_def handled_def)

lemma event_stream_outcome:
  "event_stream key client_get request q (Some c) =
     Yield ''event: status\<newline>data: Search started\<newline>\<newline>'' #
     HttpGet (brave_request key q c ''en'') #
     (case client_get (brave_request key q c ''en'') of
        Inl e \<Rightarrow> [Yield (except_clauses e)]
      | Inr resp \<Rightarrow>
          (case raise_for_status resp of
             Inl e \<Rightarrow> [Yield (except_clauses e)]
           | Inr u \<Rightarrow>
               (case response_json resp of
                  Inl e \<Rightarrow> [Yield (except_clauses e)]
                | Inr data \<Rightarrow> handled (after_fetch request c data))))"
  by (simp add: event_stream_handled try_block_after_fetch brave_search_sends gen_simps
      handled_def split: sum.splits prod.splits)

lemma for_loop_connected:
  assumes "\<forall>k. \<not> request k"
  shows "for_loop request i (map JDict kvss) = (concat (map visit (enumerate i kvss)), Inr ())"
proof (induction kvss arbitrary: i)
  case Nil
  then show ?case by simp
next
  case (Cons kvs kvss)
  then show ?case using assms
    by (simp add: gen_simps visit_def result_event_def get_or_empty_def)
qed

lemma after_fetch_results:
  assumes "map_of d ''web'' = Some (JDict w)" and "map_of w ''results'' = Some (JList rs)"
  shows "after_fetch request c (JDict d) =
     (if rs = [] then
        ([Yield ''event: status\<newline>data: No results found\<newline>\<newline>'',
          Yield ''event: end\<newline>data: []\<newline>\<newline>''], Inr ())
      else
        seq (yield ''event: status\<newline>data: Streaming results\<newline>\<newline>'')
          (seq (for_loop request 0 (slice_to rs c))
               (yield ''event: end\<newline>data: end_of_stream\<newline>\<newline>'')))"
  using assms by (simp add: after_fetch_def gen_simps)

lemma handled_results_connected:
  assumes "map_of d ''web'' = Some (JDict w)"
    and "map_of w ''results'' = Some (JList (map JDict kvss))"
    and "\<forall>k. \<not> request k"
  shows "handled (after_fetch request c (JDict d)) =
     (if kvss = [] then
        [Yield ''event: status\<newline>data: No results found\<newline>\<newline>'',
         Yield ''event: end\<newline>data: []\<newline>\<newline>'']
      else
        Yield ''event: status\<newline>data: Streaming results\<newline>\<newline>'' #
        concat (map visit (enumerate 0 (slice_to kvss c))) @
        [Yield ''event: end\<newline>data: end_of_stream\<newline>\<newline>''])"
proof -
  have sl: "slice_to (map JDict kvss) c = map JDict (slice_to kvss c)"
    by (simp add: slice_to_def take_map)
  show ?thesis
    using assms(3)
    by (simp add: after_fetch_results [OF assms(1,2)] sl for_loop_connected gen_simps
        handled_def)
qed

lemma is_data_result_event: "is_data (result_event i kvs)"
  by (simp add: is_data_def result_event_def)

lemma yields_visits:
  "yields (concat (map visit ps)) = map (\<lambda>p. result_event (fst p) (snd p)) ps"
  by (induction ps) (simp_all add: visit_def)

lemma take_length_take: "take (length (take n xs)) xs = take n xs"
  by (simp add: min_def)

lemma slice_to_take: "slice_to xs c = take (length (slice_to xs c)) xs"
  by (cases "c < 0") (simp_all only: slice_to_def take_length_take if_True if_False)

lemma length_slice_to_nonneg: "0 \<le> c \<Longrightarrow> length (slice_to xs c) = min (length xs) (nat c)"
  by (simp add: slice_to_def)

lemma length_slice_to_neg: "c < 0 \<Longrightarrow> length (slice_to xs c) = nat (max 0 (int (length xs) + c))"
  by (auto simp add: slice_to_def)

lemma map_enumerate_take:
  "map (\<lambda>p. f (fst p) (snd p)) (enumerate 0 (take m xs)) =
   map (\<lambda>i. f i (xs ! i)) [0..<min (length xs) m]"
  by (rule nth_equalityI) (simp_all add: nth_enumerate_eq)

lemma yields_results_connected:
  assumes "client_get (brave_request key q c ''en'') = Inr resp"
    and "200 \<le> status_code resp" and "status_code resp \<le> 299"
    and "response_json resp = Inr (JDict d)"
    and "map_of d ''web'' = Some (JDict w)"
    and "map_of w ''results'' = Some (JList (map JDict kvss))"
    and "\<forall>k. \<not> request k"
  shows "yields (event_stream key client_get request q (Some c)) =
     (if kvss = [] then
        [''event: status\<newline>data: Search started\<newline>\<newline>'',
         ''event: status\<newline>data: No results found\<newline>\<newline>'',
         ''event: end\<newline>data: []\<newline>\<newline>'']
      else
        ''event: status\<newline>data: Search started\<newline>\<newline>'' #
        ''event: status\<newline>data: Streaming results\<newline>\<newline>'' #
        map (\<lambda>i. result_event i (kvss ! i)) [0..<length (slice_to kvss c)] @
        [''event: end\<newline>data: end_of_stream\<newline>\<newline>''])"
proof -
  have m: "map (\<lambda>p. result_event (fst p) (snd p)) (enumerate 0 (slice_to kvss c)) =
      map (\<lambda>i. result_event i (kvss ! i)) [0..<length (slice_to kvss c)]"
    using map_enumerate_take [of result_event "length (slice_to kvss c)" kvss]
      slice_to_take [of kvss c] by (simp add: min_def slice_to_def)
  show ?thesis
    using assms(1-4)
    by (simp add: event_stream_outcome raise_for_status_def
        handled_results_connected [OF assms(5-7)] yields_append yields_visits m)
qed

lemma filter_is_data_results: "filter is_data (map (\<lambda>i. result_event i (f i)) ns) =
    map (\<lambda>i. result_event i (f i)) ns"
  by (simp add: is_data_result_event)

lemma data_events_connected:
  assumes "client_get (brave_request key q c ''en'') = Inr resp"
    and "200 \<le> status_code resp" and "status_code resp \<le> 299"
    and "response_json resp = Inr (JDict d)"
    and "map_of d ''web'' = Some (JDict w)"
    and "map_of w ''results'' = Some (JList (map JDict kvss))"
    and "\<forall>k. \<not> request k"
  shows "filter is_data (yields (event_stream key client_get request q (Some c))) =
     map (\<lambda>i. result_event i (kvss ! i)) [0..<length (slice_to kvss c)]"
proof -
  from assms have y: "yields (event_stream key client_get request q (Some c)) =
     (if kvss = [] then
        [''event: status\<newline>data: Search started\<newline>\<newline>'',
         ''event: status\<newline>data: No results found\<newline>\<newline>'',
         ''event: end\<newline>data: []\<newline>\<newline>'']
      else
        ''event: status\<newline>data: Search started\<newline>\<newline>'' #
        ''event: status\<newline>data: Streaming results\<newline>\<newline>'' #
        map (\<lambda>i. result_event i (kvss ! i)) [0..<length (slice_to kvss c)] @
        [''event: end\<newline>data: end_of_stream\<newline>\<newline>''])"
    by (rule yields_results_connected)
  show ?thesis
  proof (cases "kvss = []")
    case True
    then show ?thesis
      by (simp add: y is_data_def slice_to_def)
  next
    case False
    then show ?thesis
      by (simp add: y filter_is_data_results) (simp add: is_data_def)
  qed
qed

lemma result_event_index:
  "prefix (''data: {'' @ [CHR 0x22] @ ''index'' @ [CHR 0x22] @ '': '' @ str_int (int i + 1) @ '', '')
     (result_event i kvs)"
  by (simp add: result_event_def encode_str_def escape_char_def)

lemma ok_response_sel:
  "status_code (ok_response data) = 200"
  "response_json (ok_response data) = Inr data"
  by (simp_all add: ok_response_def)

lemma terminal_except_clauses: "is_terminal (except_clauses e)"
  by (cases e) (simp_all add: is_terminal_def is_error_def)

lemma for_loop_no_terminal:
  "filter is_terminal (yields (fst (for_loop request i items))) = []"
proof (induction items arbitrary: i)
  case Nil
  then show ?case by simp
next
  case (Cons r rs)
  show ?case
  proof (cases r)
    case (JDict kvs)
    have "\<not> is_terminal (''data: '' @ s)" for s
      by (simp add: is_terminal_def is_end_def is_error_def)
    then show ?thesis using Cons [of "Suc i"] JDict
      by (simp add: gen_simps Let_def yields_append)
  qed (simp_all add: gen_simps)
qed

lemma handled_after_fetch_terminal:
  "\<exists>ys s. yields (handled (after_fetch request c data)) = ys @ [s] \<and> is_terminal s \<and>
     filter is_terminal ys = []"
proof (cases "py_get data ''web'' (JDict [])")
  case (Inl e)
  then show ?thesis
    by (simp add: after_fetch_def gen_simps handled_def terminal_except_clauses)
next
  case (Inr web)
  note web = this
  show ?thesis
  proof (cases "py_get web ''results'' (JList [])")
    case (Inl e)
    with web show ?thesis
      by (simp add: after_fetch_def gen_simps handled_def terminal_except_clauses)
  next
    case (Inr web_results)
    note wr = this
    show ?thesis
    proof (cases "truthy web_results")
      case False
      have "yields (handled (after_fetch request c data)) =
          [''event: status\<newline>data: No results found\<newline>\<newline>''] @ [''event: end\<newline>data: []\<newline>\<newline>'']"
        using web wr False by (simp add: after_fetch_def gen_simps handled_def)
      moreover have "is_terminal ''event: end\<newline>data: []\<newline>\<newline>''"
        by (simp add: is_terminal_def is_end_def)
      moreover have "filter is_terminal [''event: status\<newline>data: No results found\<newline>\<newline>''] = []"
        by (simp add: is_terminal_def is_end_def is_error_def)
      ultimately show ?thesis by blast
    next
      case True
      note tr = this
      have st0: "\<not> is_terminal ''event: status\<newline>data: Streaming results\<newline>\<newline>''"
        by (simp add: is_terminal_def is_end_def is_error_def)
      then have st: "filter is_terminal [''event: status\<newline>data: Streaming results\<newline>\<newline>''] = []"
        by simp
      show ?thesis
      proof (cases "py_slice_items web_results c")
        case (Inl e)
        have "yields (handled (after_fetch request c data)) =
            [''event: status\<newline>data: Streaming results\<newline>\<newline>''] @ [except_clauses e]"
          using web wr tr Inl by (simp add: after_fetch_def gen_simps handled_def)
        with st terminal_except_clauses show ?thesis by blast
      next
        case (Inr items)
        obtain t r where fl: "for_loop request 0 items = (t, r)"
          by (cases "for_loop request 0 items")
        have nt: "filter is_terminal (yields t) = []"
          using for_loop_no_terminal [of request 0 items] fl by simp
        define s where "s = (case r of Inl e \<Rightarrow> except_clauses e
            | Inr u \<Rightarrow> ''event: end\<newline>data: end_of_stream\<newline>\<newline>'')"
        have "yields (handled (after_fetch request c data)) =
            (''event: status\<newline>data: Streaming results\<newline>\<newline>'' # yields t) @ [s]"
          using web wr tr Inr fl
          by (cases r) (simp_all add: after_fetch_def gen_simps handled_def yields_append s_def)
        moreover have "is_terminal s"
        proof (cases r)
          case (Inl e)
          then show ?thesis by (simp add: s_def terminal_except_clauses)
        next
          case (Inr u)
          then show ?thesis by (simp add: s_def is_terminal_def is_end_def)
        qed
        moreover have "filter is_terminal
            (''event: status\<newline>data: Streaming results\<newline>\<newline>'' # yields t) = []"
          using st0 nt by simp
        ultimately show ?thesis by blast
      qed
    qed
  qed
qed

lemma event_stream_terminal:
  "\<exists>ys s. yields (event_stream key client_get request q (Some c)) = ys @ [s] \<and>
     is_terminal s \<and> filter is_terminal ys = []"
proof -
  let ?started = "''event: status\<newline>data: Search started\<newline>\<newline>''"
  have st: "\<not> is_terminal ?started"
    by (simp add: is_terminal_def is_end_def is_error_def)
  have err: "\<exists>ys s. [?started, except_clauses e] = ys @ [s] \<and>
     is_terminal s \<and> filter is_terminal ys = []" for e
  proof -
    have "[?started, except_clauses e] = [?started] @ [except_clauses e]"
      by simp
    moreover have "filter is_terminal [?started] = []" using st by simp
    ultimately show ?thesis using terminal_except_clauses by blast
  qed
  have ok: "\<exists>ys s. ?started # yields (handled (after_fetch request c data)) = ys @ [s] \<and>
     is_terminal s \<and> filter is_terminal ys = []" for data
  proof -
    obtain ys s where h: "yields (handled (after_fetch request c data)) = ys @ [s]"
        "is_terminal s" "filter is_terminal ys = []"
      using handled_after_fetch_terminal by blast
    have "?started # yields (handled (after_fetch request c data)) = (?started # ys) @ [s]"
      using h(1) by simp
    moreover have "filter is_terminal (?started # ys) = []" using st h(3) by simp
    ultimately show ?thesis using h(2) by blast
  qed
  show ?thesis
  proof (cases "client_get (brave_request key q c ''en'')")
    case (Inl e)
    then show ?thesis using err [of e] by (simp add: event_stream_outcome)
  next
    case (Inr resp)
    note resp = this
    show ?thesis
    proof (cases "raise_for_status resp")
      case (Inl e)
      with resp show ?thesis using err [of e] by (simp add: event_stream_outcome)
    next
      case (Inr u)
      note u = this
      show ?thesis
      proof (cases "response_json resp")
        case (Inl e)
        with resp u show ?thesis using err [of e] by (simp add: event_stream_outcome)
      next
        case (Inr data)
        with resp u show ?thesis using ok [of data] by (simp add: event_stream_outcome)
      qed
    qed
  qed
qed

lemma after_disconnect_append:
  "after_disconnect (s @ t) =
     (case after_disconnect s of Some p \<Rightarrow> Some (p @ t) | None \<Rightarrow> after_disconnect t)"
  by (induction s rule: after_disconnect.induct) simp_all

lemma for_loop_after_disconnect:
  "after_disconnect (fst (for_loop request i items)) = Some p \<Longrightarrow>
     p = [] \<and> snd (for_loop request i items) = Inr ()"
proof (induction items arbitrary: i)
  case Nil
  then show ?case by simp
next
  case (Cons r rs)
  show ?case
  proof (cases r)
    case (JDict kvs)
    show ?thesis
    proof (cases "request i")
      case True
      with Cons.prems JDict show ?thesis
        by (simp add: gen_simps Let_def)
    next
      case False
      with Cons.prems JDict have "after_disconnect (fst (for_loop request (Suc i) rs)) = Some p"
        by (simp add: gen_simps Let_def)
      then have "p = [] \<and> snd (for_loop request (Suc i) rs) = Inr ()"
        by (rule Cons.IH)
      with False JDict show ?thesis
        by (simp add: gen_simps Let_def)
    qed
  qed (use Cons.prems in \<open>simp_all add: gen_simps\<close>)
qed

lemma handled_after_fetch_disconnect:
  assumes "after_disconnect (handled (after_fetch request c data)) = Some post"
  shows "post = [Yield ''event: end\<newline>data: end_of_stream\<newline>\<newline>'']"
proof (cases "py_get data ''web'' (JDict [])")
  case (Inl e)
  with assms show ?thesis
    by (simp add: after_fetch_def gen_simps handled_def)
next
  case (Inr web)
  note web = this
  show ?thesis
  proof (cases "py_get web ''results'' (JList [])")
    case (Inl e)
    with assms web show ?thesis
      by (simp add: after_fetch_def gen_simps handled_def)
  next
    case (Inr web_results)
    note wr = this
    show ?thesis
    proof (cases "truthy web_results")
      case False
      with assms web wr show ?thesis
        by (simp add: after_fetch_def gen_simps handled_def)
    next
      case True
      note tr = this
      show ?thesis
      proof (cases "py_slice_items web_results c")
        case (Inl e)
        with assms web wr tr show ?thesis
          by (simp add: after_fetch_def gen_simps handled_def)
      next
        case (Inr items)
        obtain t r where fl: "for_loop request 0 items = (t, r)"
          by (cases "for_loop request 0 items")
        have loop: "after_disconnect t = Some p \<Longrightarrow> p = [] \<and> r = Inr ()" for p
          using for_loop_after_disconnect [of request 0 items p] fl by simp
        show ?thesis
        proof (cases r)
          case (Inl e)
          with loop have "after_disconnect t = None"
            by (cases "after_disconnect t") auto
          with assms web wr tr Inr fl Inl show ?thesis
            by (simp add: after_fetch_def gen_simps handled_def after_disconnect_append)
        next
          case (Inr u)
          with assms web wr tr \<open>py_slice_items web_results c = Inr items\<close> fl
          have "after_disconnect (t @ [Yield ''event: end\<newline>data: end_of_stream\<newline>\<newline>'']) = Some post"
            by (simp add: after_fetch_def gen_simps handled_def)
          then show ?thesis using loop
            by (cases "after_disconnect t") (auto simp add: after_disconnect_append)
        qed
      qed
    qed
  qed
qed

lemma web_null_is_error:
  assumes "client_get (brave_request key q c ''en'') = Inr resp"
    and "200 \<le> status_code resp" and "status_code resp \<le> 299"
    and "response_json resp = Inr (JDict [(''web'', JNull)])"
  shows "yields (event_stream key client_get request q (Some c)) =
    [''event: status\<newline>data: Search started\<newline>\<newline>'',
     except_clauses (Exception ([CHR 0x27] @ ''NoneType'' @ [CHR 0x27] @
        '' object has no attribute '' @ [CHR 0x27] @ ''get'' @ [CHR 0x27]))]"
  using assms
  by (simp add: event_stream_outcome raise_for_status_def after_fetch_def gen_simps handled_def)

section \<open>The claims\<close>

text \<open>
  C1. The claim: the \<open>language\<close> of the request body reaches the provider as the
  search-language parameter of the GET. \<open>search\<close> hands \<open>event_stream\<close> the query and the
  count only, and \<open>event_stream\<close> calls \<open>brave_search(query, count)\<close>, so the parameter is
  always the default of \<open>brave_search\<close>. The theorem runs the endpoint on a body whose
  language is \<open>fr\<close>: one GET is sent, and its \<open>search_lang\<close> is \<open>en\<close>.
\<close>

theorem search_language_not_forwarded:
  "map (\<lambda>r. map_of (params r) ''search_lang'')
     (gets (content (search key client_get request
        \<lparr>query = ''chat'', count = 5, language = ''fr''\<rparr>)))
   = [Some (PStr ''en'')]"
  by (simp add: search_def or_5_def gets_event_stream brave_request_def)

text \<open>
  C7. When the provider answers the GET with status 429, the run is exactly: the event
  \<open>status: Search started\<close>, the one GET, and one \<open>error\<close> event whose payload is
  \<open>HTTP error 429 - \<close> followed by the text of the response. There is no per-result event,
  nothing after the error event, and no second GET.
\<close>

theorem http_429_error_event:
  assumes "client_get (brave_request key (query body) (or_5 (count body)) ''en'') = Inr resp"
    and "status_code resp = 429"
  shows "content (search key client_get request body) =
    [Yield ''event: status\<newline>data: Search started\<newline>\<newline>'',
     HttpGet (brave_request key (query body) (or_5 (count body)) ''en''),
     Yield (''event: error\<newline>data: HTTP error 429 - '' @ response_text resp @ ''\<newline>\<newline>'')]"
  using assms
  by (simp add: search_def event_stream_def try_block_def brave_search_sends
      raise_for_status_def gen_simps str_int_429)

theorem http_429_error_event_witness:
  "content (search ''key''
      (answers \<lparr>status_code = 429, response_text = ''slow down'',
                response_json = Inl (Exception ''no JSON'')\<rparr>)
      connected \<lparr>query = ''tea'', count = 5, language = ''en''\<rparr>) =
    [Yield ''event: status\<newline>data: Search started\<newline>\<newline>'',
     HttpGet (brave_request ''key'' ''tea'' 5 ''en''),
     Yield ''event: error\<newline>data: HTTP error 429 - slow down\<newline>\<newline>'']"
  using http_429_error_event [of
      "answers \<lparr>status_code = 429, response_text = ''slow down'',
                response_json = Inl (Exception ''no JSON'')\<rparr>" "''key''"
      "\<lparr>query = ''tea'', count = 5, language = ''en''\<rparr>"
      "\<lparr>status_code = 429, response_text = ''slow down'',
                response_json = Inl (Exception ''no JSON'')\<rparr>" connected]
  by (simp add: or_5_def answers_def)

text \<open>
  C6. When the provider answers with a success status and a body whose \<open>web.results\<close> is
  the empty list, the events written are exactly \<open>status: Search started\<close>,
  \<open>status: No results found\<close> and \<open>end: []\<close>, in this order.
\<close>

theorem zero_results_sequence:
  assumes "client_get (brave_request key (query body) (or_5 (count body)) ''en'') = Inr resp"
    and "200 \<le> status_code resp" and "status_code resp \<le> 299"
    and "response_json resp = Inr (JDict d)"
    and "map_of d ''web'' = Some (JDict w)"
    and "map_of w ''results'' = Some (JList [])"
  shows "yields (content (search key client_get request body)) =
    [''event: status\<newline>data: Search started\<newline>\<newline>'',
     ''event: status\<newline>data: No results found\<newline>\<newline>'',
     ''event: end\<newline>data: []\<newline>\<newline>'']"
  using assms(1-4)
  by (simp add: search_def event_stream_outcome raise_for_status_def
      after_fetch_results [OF assms(5,6)] handled_def)

theorem zero_results_sequence_witness:
  "yields (content (search ''key'' (answers (ok_response (web_results_body []))) connected
      \<lparr>query = ''tea'', count = 5, language = ''en''\<rparr>)) =
    [''event: status\<newline>data: Search started\<newline>\<newline>'',
     ''event: status\<newline>data: No results found\<newline>\<newline>'',
     ''event: end\<newline>data: []\<newline>\<newline>'']"
  using zero_results_sequence [of "answers (ok_response (web_results_body []))" "''key''"
      "\<lparr>query = ''tea'', count = 5, language = ''en''\<rparr>" "ok_response (web_results_body [])"
      "[(''type'', JStr ''search''), (''web'', JDict [(''results'', JList [])])]"
      "[(''results'', JList [])]" connected]
  by (simp add: answers_def ok_response_sel web_results_body_def)

text \<open>
  C8. The claim: whenever the provider answers with a success status and a body that
  lacks the \<open>web.results\<close> path, the run takes the zero-results path and writes no
  \<open>error\<close> event. The two defaults of \<open>data.get("web", {}).get("results", [])\<close> apply
  only where a key is absent from a \<open>dict\<close>. In the run below the body is the object
  whose \<open>web\<close> is \<open>null\<close>: it has no \<open>web.results\<close>, the second \<open>.get\<close> raises
  \<open>AttributeError\<close>, and the run ends with an \<open>error\<close> event.
\<close>

theorem missing_path_counterexample:
  "yields (content (search ''key'' (answers (ok_response (JDict [(''web'', JNull)])))
      connected \<lparr>query = ''tea'', count = 5, language = ''en''\<rparr>)) =
    [''event: status\<newline>data: Search started\<newline>\<newline>'',
     ''event: error\<newline>data: Exception: '' @ [CHR 0x27] @ ''NoneType'' @ [CHR 0x27] @
       '' object has no attribute '' @ [CHR 0x27] @ ''get'' @ [CHR 0x27] @ ''\<newline>\<newline>'']"
  by code_simp

text \<open>
  C8, amended. When the provider answers with a success status and a JSON object in which
  the key \<open>web\<close> is absent, or in which \<open>web\<close> is an object without the key \<open>results\<close>,
  the run takes the zero-results path: the events are those of C6, and no \<open>error\<close> event
  is written.
\<close>

theorem missing_path_is_empty:
  assumes "client_get (brave_request key (query body) (or_5 (count body)) ''en'') = Inr resp"
    and "200 \<le> status_code resp" and "status_code resp \<le> 299"
    and "response_json resp = Inr (JDict d)"
    and "map_of d ''web'' = None \<or>
         (\<exists>w. map_of d ''web'' = Some (JDict w) \<and> map_of w ''results'' = None)"
  shows "yields (content (search key client_get request body)) =
    [''event: status\<newline>data: Search started\<newline>\<newline>'',
     ''event: status\<newline>data: No results found\<newline>\<newline>'',
     ''event: end\<newline>data: []\<newline>\<newline>'']"
  using assms
  by (auto simp add: search_def event_stream_outcome raise_for_status_def
      after_fetch_def gen_simps handled_def)

theorem missing_path_is_empty_witness:
  "yields (content (search ''key'' (answers (ok_response (JDict [(''type'', JStr ''search'')])))
      connected \<lparr>query = ''tea'', count = 5, language = ''en''\<rparr>)) =
    [''event: status\<newline>data: Search started\<newline>\<newline>'',
     ''event: status\<newline>data: No results found\<newline>\<newline>'',
     ''event: end\<newline>data: []\<newline>\<newline>'']"
  using missing_path_is_empty [of "answers (ok_response (JDict [(''type'', JStr ''search'')]))"
      "''key''" "\<lparr>query = ''tea'', count = 5, language = ''en''\<rparr>"
      "ok_response (JDict [(''type'', JStr ''search'')])" "[(''type'', JStr ''search'')]" connected]
  by (simp add: answers_def ok_response_sel)

text \<open>
  C4. When the provider returns \<open>n\<close> results, each a JSON object, the count of the request
  is \<open>c > 0\<close> and the client stays connected, the per-result events written are
  \<open>min n c\<close> in number, and the event at position \<open>i\<close> (from 0) is the record of the
  \<open>i\<close>-th result of the provider with index \<open>i + 1\<close>: the indices run from 1 to
  \<open>min n c\<close> in the order of emission, which is the provider's order.
\<close>

theorem data_events_positive_count:
  assumes "client_get (brave_request key (query body) (or_5 (count body)) ''en'') = Inr resp"
    and "200 \<le> status_code resp" and "status_code resp \<le> 299"
    and "response_json resp = Inr (JDict d)"
    and "map_of d ''web'' = Some (JDict w)"
    and "map_of w ''results'' = Some (JList (map JDict kvss))"
    and "0 < count body"
    and "\<forall>k. \<not> request k"
  shows "length (filter is_data (yields (content (search key client_get request body)))) =
           min (length kvss) (nat (count body)) \<and>
         filter is_data (yields (content (search key client_get request body))) =
           map (\<lambda>i. result_event i (kvss ! i)) [0..<min (length kvss) (nat (count body))]"
proof -
  from assms(7) have c: "or_5 (count body) = count body"
    by (simp add: or_5_def)
  from assms(1-6,8)
  have "filter is_data (yields (event_stream key client_get request (query body)
          (Some (or_5 (count body))))) =
        map (\<lambda>i. result_event i (kvss ! i)) [0..<length (slice_to kvss (or_5 (count body)))]"
    by (rule data_events_connected)
  with assms(7) show ?thesis
    by (simp add: search_def c length_slice_to_nonneg)
qed

theorem data_events_positive_count_witness:
  "length (filter is_data (yields (content (search ''key''
      (answers (ok_response (web_results_body
         [JDict [(''title'', JStr ''Assam'')], JDict [(''url'', JStr ''u'')], JDict []])))
      connected \<lparr>query = ''tea'', count = 2, language = ''en''\<rparr>)))) = 2 \<and>
   filter is_data (yields (content (search ''key''
      (answers (ok_response (web_results_body
         [JDict [(''title'', JStr ''Assam'')], JDict [(''url'', JStr ''u'')], JDict []])))
      connected \<lparr>query = ''tea'', count = 2, language = ''en''\<rparr>))) =
     [result_event 0 [(''title'', JStr ''Assam'')], result_event 1 [(''url'', JStr ''u'')]]"
  using data_events_positive_count [of
      "answers (ok_response (web_results_body
         [JDict [(''title'', JStr ''Assam'')], JDict [(''url'', JStr ''u'')], JDict []]))"
      "''key''" "\<lparr>query = ''tea'', count = 2, language = ''en''\<rparr>"
      "ok_response (web_results_body
         [JDict [(''title'', JStr ''Assam'')], JDict [(''url'', JStr ''u'')], JDict []])"
      "[(''type'', JStr ''search''), (''web'', JDict [(''results'', JList
         [JDict [(''title'', JStr ''Assam'')], JDict [(''url'', JStr ''u'')], JDict []])])]"
      "[(''results'', JList
         [JDict [(''title'', JStr ''Assam'')], JDict [(''url'', JStr ''u'')], JDict []])]"
      "[[(''title'', JStr ''Assam'')], [(''url'', JStr ''u'')], []]" connected]
  by (simp add: answers_def ok_response_sel web_results_body_def connected_def or_5_def
      upt_rec numeral_2_eq_2)

text \<open>
  C9. The request model puts no bound on \<open>count\<close>. With a negative count \<open>c\<close>, \<open>n\<close>
  results from the provider, each a JSON object, and a client that stays connected, the
  slice \<open>web_results[:c]\<close> drops the last \<open>-c\<close> results, so \<open>max 0 (n + c)\<close> per-result
  events are written.
\<close>

theorem data_events_negative_count:
  assumes "client_get (brave_request key (query body) (or_5 (count body)) ''en'') = Inr resp"
    and "200 \<le> status_code resp" and "status_code resp \<le> 299"
    and "response_json resp = Inr (JDict d)"
    and "map_of d ''web'' = Some (JDict w)"
    and "map_of w ''results'' = Some (JList (map JDict kvss))"
    and "count body < 0"
    and "\<forall>k. \<not> request k"
  shows "length (filter is_data (yields (content (search key client_get request body)))) =
           nat (max 0 (int (length kvss) + count body))"
proof -
  from assms(7) have c: "or_5 (count body) = count body"
    by (simp add: or_5_def)
  from assms(1-6,8)
  have "filter is_data (yields (event_stream key client_get request (query body)
          (Some (or_5 (count body))))) =
        map (\<lambda>i. result_event i (kvss ! i)) [0..<length (slice_to kvss (or_5 (count body)))]"
    by (rule data_events_connected)
  with assms(7) show ?thesis
    by (simp add: search_def c length_slice_to_neg)
qed

theorem data_events_negative_count_witness:
  "length (filter is_data (yields (content (search ''key''
      (answers (ok_response (web_results_body
         [JDict [(''title'', JStr ''Assam'')], JDict [(''url'', JStr ''u'')], JDict []])))
      connected \<lparr>query = ''tea'', count = - 1, language = ''en''\<rparr>)))) = 2"
  using data_events_negative_count [of
      "answers (ok_response (web_results_body
         [JDict [(''title'', JStr ''Assam'')], JDict [(''url'', JStr ''u'')], JDict []]))"
      "''key''" "\<lparr>query = ''tea'', count = - 1, language = ''en''\<rparr>"
      "ok_response (web_results_body
         [JDict [(''title'', JStr ''Assam'')], JDict [(''url'', JStr ''u'')], JDict []])"
      "[(''type'', JStr ''search''), (''web'', JDict [(''results'', JList
         [JDict [(''title'', JStr ''Assam'')], JDict [(''url'', JStr ''u'')], JDict []])])]"
      "[(''results'', JList
         [JDict [(''title'', JStr ''Assam'')], JDict [(''url'', JStr ''u'')], JDict []])]"
      "[[(''title'', JStr ''Assam'')], [(''url'', JStr ''u'')], []]" connected]
  by (simp add: answers_def ok_response_sel web_results_body_def connected_def or_5_def
      upt_rec numeral_2_eq_2)

text \<open>
  C3. The claim: with \<open>count = 0\<close> no per-result event is written, whatever the provider
  returns. The endpoint passes \<open>body.count or 5\<close>, so a count of 0 becomes 5 before the
  stream starts: with one result from the provider, one per-result event is written.
\<close>

theorem count_zero_counterexample:
  "filter is_data (yields (content (search ''key''
      (answers (ok_response (web_results_body
         [JDict [(''title'', JStr ''Assam'')]])))
      connected \<lparr>query = ''tea'', count = 0, language = ''en''\<rparr>))) =
     [result_event 0 [(''title'', JStr ''Assam'')]]"
  by code_simp

text \<open>
  C3, amended. With \<open>count = 0\<close>, \<open>n \<ge> 1\<close> results from the provider, each a JSON object,
  and a client that stays connected, the count used is 5: the per-result events are those
  of the first \<open>min n 5\<close> results, and the last event written is \<open>end: end_of_stream\<close>.
\<close>

theorem count_zero_streams_five:
  assumes "client_get (brave_request key (query body) (or_5 (count body)) ''en'') = Inr resp"
    and "200 \<le> status_code resp" and "status_code resp \<le> 299"
    and "response_json resp = Inr (JDict d)"
    and "map_of d ''web'' = Some (JDict w)"
    and "map_of w ''results'' = Some (JList (map JDict kvss))"
    and "kvss \<noteq> []"
    and "count body = 0"
    and "\<forall>k. \<not> request k"
  shows "filter is_data (yields (content (search key client_get request body))) =
           map (\<lambda>i. result_event i (kvss ! i)) [0..<min (length kvss) 5] \<and>
         last (yields (content (search key client_get request body))) =
           ''event: end\<newline>data: end_of_stream\<newline>\<newline>''"
proof -
  from assms(8) have c: "or_5 (count body) = 5"
    by (simp add: or_5_def)
  from assms(1-6,9)
  have d: "filter is_data (yields (event_stream key client_get request (query body)
          (Some (or_5 (count body))))) =
        map (\<lambda>i. result_event i (kvss ! i)) [0..<length (slice_to kvss (or_5 (count body)))]"
    by (rule data_events_connected)
  from assms(1-6,9)
  have y: "yields (event_stream key client_get request (query body) (Some (or_5 (count body)))) =
     (if kvss = [] then
        [''event: status\<newline>data: Search started\<newline>\<newline>'',
         ''event: status\<newline>data: No results found\<newline>\<newline>'',
         ''event: end\<newline>data: []\<newline>\<newline>'']
      else
        ''event: status\<newline>data: Search started\<newline>\<newline>'' #
        ''event: status\<newline>data: Streaming results\<newline>\<newline>'' #
        map (\<lambda>i. result_event i (kvss ! i)) [0..<length (slice_to kvss (or_5 (count body)))] @
        [''event: end\<newline>data: end_of_stream\<newline>\<newline>''])"
    by (rule yields_results_connected)
  have "filter is_data (yields (content (search key client_get request body))) =
           map (\<lambda>i. result_event i (kvss ! i)) [0..<min (length kvss) 5]"
    using d by (simp add: search_def c length_slice_to_nonneg)
  moreover have "last (yields (content (search key client_get request body))) =
           ''event: end\<newline>data: end_of_stream\<newline>\<newline>''"
    using assms(7) by (simp add: search_def y)
  ultimately show ?thesis by simp
qed

theorem count_zero_streams_five_witness:
  "filter is_data (yields (content (search ''key''
      (answers (ok_response (web_results_body
         [JDict [(''title'', JStr ''Assam'')], JDict [(''url'', JStr ''u'')], JDict []])))
      connected \<lparr>query = ''tea'', count = 0, language = ''en''\<rparr>))) =
     [result_event 0 [(''title'', JStr ''Assam'')], result_event 1 [(''url'', JStr ''u'')],
      result_event 2 []] \<and>
   last (yields (content (search ''key''
      (answers (ok_response (web_results_body
         [JDict [(''title'', JStr ''Assam'')], JDict [(''url'', JStr ''u'')], JDict []])))
      connected \<lparr>query = ''tea'', count = 0, language = ''en''\<rparr>))) =
     ''event: end\<newline>data: end_of_stream\<newline>\<newline>''"
  using count_zero_streams_five [of
      "answers (ok_response (web_results_body
         [JDict [(''title'', JStr ''Assam'')], JDict [(''url'', JStr ''u'')], JDict []]))"
      "''key''" "\<lparr>query = ''tea'', count = 0, language = ''en''\<rparr>"
      "ok_response (web_results_body
         [JDict [(''title'', JStr ''Assam'')], JDict [(''url'', JStr ''u'')], JDict []])"
      "[(''type'', JStr ''search''), (''web'', JDict [(''results'', JList
         [JDict [(''title'', JStr ''Assam'')], JDict [(''url'', JStr ''u'')], JDict []])])]"
      "[(''results'', JList
         [JDict [(''title'', JStr ''Assam'')], JDict [(''url'', JStr ''u'')], JDict []])]"
      "[[(''title'', JStr ''Assam'')], [(''url'', JStr ''u'')], []]" connected]
  by (simp add: answers_def ok_response_sel web_results_body_def connected_def or_5_def
      upt_rec numeral_2_eq_2)

text \<open>
  C5. Whatever the provider does (a transport failure, any status, any body) and whatever
  the client does, exactly one of the events written is a terminal event (\<open>end\<close> or
  \<open>error\<close>), and it is the last event written.
\<close>

theorem one_terminal_event_last:
  "filter is_terminal (yields (content (search key client_get request body))) =
     [last (yields (content (search key client_get request body)))]"
proof -
  obtain ys s where h: "yields (event_stream key client_get request (query body)
       (Some (or_5 (count body)))) = ys @ [s]" "is_terminal s" "filter is_terminal ys = []"
    using event_stream_terminal by blast
  then show ?thesis by (simp add: search_def)
qed

text \<open>
  C2. The claim: once a poll finds the client gone, neither a per-result event nor a
  terminal event is written. The loop leaves by \<open>break\<close>, and the statement after the
  loop still yields \<open>end: end_of_stream\<close>. In the run below the second poll finds the
  client gone, and the terminal event follows it.
\<close>

theorem disconnect_counterexample:
  "content (search ''key''
      (answers (ok_response (web_results_body
         [JDict [(''title'', JStr ''Assam'')], JDict [(''url'', JStr ''u'')], JDict []])))
      (disconnects_at 1) \<lparr>query = ''tea'', count = 5, language = ''en''\<rparr>) =
    [Yield ''event: status\<newline>data: Search started\<newline>\<newline>'',
     HttpGet (brave_request ''key'' ''tea'' 5 ''en''),
     Yield ''event: status\<newline>data: Streaming results\<newline>\<newline>'',
     Yield (result_event 0 [(''title'', JStr ''Assam'')]),
     IsDisconnected False,
     Sleep,
     Yield (result_event 1 [(''url'', JStr ''u'')]),
     IsDisconnected True,
     Yield ''event: end\<newline>data: end_of_stream\<newline>\<newline>'']"
  by code_simp

text \<open>
  C2, amended. In every run, what follows the poll that finds the client gone is exactly
  one action: the terminal event \<open>end: end_of_stream\<close>. So no per-result event and no
  \<open>error\<close> event is written after the disconnect is detected.
\<close>

theorem disconnect_then_end_only:
  assumes "after_disconnect (content (search key client_get request body)) = Some post"
  shows "post = [Yield ''event: end\<newline>data: end_of_stream\<newline>\<newline>'']"
proof -
  from assms obtain data where
    "after_disconnect (handled (after_fetch request (or_5 (count body)) data)) = Some post"
    by (auto simp add: search_def event_stream_outcome split: sum.splits)
  then show ?thesis by (rule handled_after_fetch_disconnect)
qed

theorem disconnect_then_end_only_witness:
  "after_disconnect (content (search ''key''
      (answers (ok_response (web_results_body
         [JDict [(''title'', JStr ''Assam'')], JDict [(''url'', JStr ''u'')], JDict []])))
      (disconnects_at 1) \<lparr>query = ''tea'', count = 5, language = ''en''\<rparr>)) =
    Some (drop 8 (content (search ''key''
      (answers (ok_response (web_results_body
         [JDict [(''title'', JStr ''Assam'')], JDict [(''url'', JStr ''u'')], JDict []])))
      (disconnects_at 1) \<lparr>query = ''tea'', count = 5, language = ''en''\<rparr>))) \<and>
   drop 8 (content (search ''key''
      (answers (ok_response (web_results_body
         [JDict [(''title'', JStr ''Assam'')], JDict [(''url'', JStr ''u'')], JDict []])))
      (disconnects_at 1) \<lparr>query = ''tea'', count = 5, language = ''en''\<rparr>)) =
    [Yield ''event: end\<newline>data: end_of_stream\<newline>\<newline>'']"
proof -
  have h: "after_disconnect (content (search ''key''
      (answers (ok_response (web_results_body
         [JDict [(''title'', JStr ''Assam'')], JDict [(''url'', JStr ''u'')], JDict []])))
      (disconnects_at 1) \<lparr>query = ''tea'', count = 5, language = ''en''\<rparr>)) =
    Some (drop 8 (content (search ''key''
      (answers (ok_response (web_results_body
         [JDict [(''title'', JStr ''Assam'')], JDict [(''url'', JStr ''u'')], JDict []])))
      (disconnects_at 1) \<lparr>query = ''tea'', count = 5, language = ''en''\<rparr>)))"
    by code_simp
  from h disconnect_then_end_only [OF h] show ?thesis by (rule conjI)
qed

text \<open>
  C10. The events written are determined by the query, the count and the provider's
  answer when the client stays connected: two runs that agree on these (and may differ in
  the transport, in the request object and in the language of the body) write the same
  sequence of strings.
\<close>

theorem same_inputs_same_events:
  assumes "query body1 = query body2" and "count body1 = count body2"
    and "client_get1 (brave_request key (query body1) (or_5 (count body1)) ''en'') =
         client_get2 (brave_request key (query body1) (or_5 (count body1)) ''en'')"
    and "\<forall>k. \<not> request1 k" and "\<forall>k. \<not> request2 k"
  shows "yields (content (search key client_get1 request1 body1)) =
         yields (content (search key client_get2 request2 body2))"
proof -
  from assms(4,5) have "request1 = request2" by (simp add: fun_eq_iff)
  with assms(1-3) show ?thesis
    by (simp add: search_def event_stream_outcome)
qed

theorem same_inputs_same_events_witness:
  "yields (content (search ''key''
      (answers (ok_response (web_results_body [JDict [(''title'', JStr ''Assam'')]])))
      connected \<lparr>query = ''tea'', count = 5, language = ''fr''\<rparr>)) =
   yields (content (search ''key''
      (answers (ok_response (web_results_body [JDict [(''title'', JStr ''Assam'')]])))
      connected \<lparr>query = ''tea'', count = 5, language = ''en''\<rparr>))"
  using same_inputs_same_events [of "\<lparr>query = ''tea'', count = 5, language = ''fr''\<rparr>"
      "\<lparr>query = ''tea'', count = 5, language = ''en''\<rparr>"
      "answers (ok_response (web_results_body [JDict [(''title'', JStr ''Assam'')]]))" "''key''"
      "answers (ok_response (web_results_body [JDict [(''title'', JStr ''Assam'')]]))"
      connected connected]
  by (simp add: connected_def)

end
